theory Spec2Isabelle
  imports Main "HOL-Library.Sublist"
begin

section \<open>Python strings and truthiness\<close>

text \<open>
  A Python \<open>str\<close> is modelled as a \<open>string\<close>: the bytes of its UTF-8 encoding, an
  ASCII character being one byte. A lone surrogate, which a \<open>str\<close> can hold and UTF-8
  cannot encode, is the three bytes \<open>ED A0..BF 80..BF\<close> of the generalised encoding.
  \<open>str_lower\<close> and \<open>str_upper\<close> are the case mappings on ASCII text, where they exchange
  \<open>a..z\<close> and \<open>A..Z\<close>; they leave every other byte as it is. The handler of the HTTP
  backend, which upper-cases arbitrary text, takes \<open>str.upper\<close> as a parameter.
\<close>

definition ascii_lowercase :: string where
  "ascii_lowercase = ''abcdefghijklmnopqrstuvwxyz''"

definition ascii_uppercase :: string where
  "ascii_uppercase = ''ABCDEFGHIJKLMNOPQRSTUVWXYZ''"

definition lower_char :: "char \<Rightarrow> char" where
  "lower_char c = (case map_of (zip ascii_uppercase ascii_lowercase) c of
                     None \<Rightarrow> c | Some l \<Rightarrow> l)"

definition upper_char :: "char \<Rightarrow> char" where
  "upper_char c = (case map_of (zip ascii_lowercase ascii_uppercase) c of
                     None \<Rightarrow> c | Some u \<Rightarrow> u)"

definition str_lower :: "string \<Rightarrow> string" where
  "str_lower s = map lower_char s"

definition str_upper :: "string \<Rightarrow> string" where
  "str_upper s = map upper_char s"

text \<open>\<open>sep.join(xs)\<close>.\<close>

fun join :: "string \<Rightarrow> string list \<Rightarrow> string" where
  "join sep [] = []"
| "join sep [x] = x"
| "join sep (x # y # ys) = x @ sep @ join sep (y # ys)"

text \<open>
  Truthiness of an optional string (\<open>if s:\<close>): \<open>None\<close> and the empty string are falsy.
\<close>

definition truthy :: "string option \<Rightarrow> bool" where
  "truthy s = (case s of None \<Rightarrow> False | Some v \<Rightarrow> v \<noteq> [])"

section \<open>Startup validation of the environment (app_agent/agent.py)\<close>

text \<open>
  The process environment, after \<open>load_dotenv()\<close> has merged the \<open>.env\<close> file into it,
  is a map from variable names to values. \<open>os.getenv(k)\<close> yields \<open>None\<close> for a name
  that is not set; \<open>os.getenv(k, d)\<close> yields \<open>d\<close> then.
\<close>

type_synonym environ = "string \<rightharpoonup> string"

definition getenv :: "environ \<Rightarrow> string \<Rightarrow> string option" where
  "getenv env k = env k"

definition getenv_default :: "environ \<Rightarrow> string \<Rightarrow> string \<Rightarrow> string" where
  "getenv_default env k d = (case env k of None \<Rightarrow> d | Some v \<Rightarrow> v)"

datatype exn = ValueError string | AttributeError string | Exception string

text \<open>Line 21: the toggle as read, with its default.\<close>

definition google_genai_use_vertexai :: "environ \<Rightarrow> string" where
  "google_genai_use_vertexai env = getenv_default env ''GOOGLE_GENAI_USE_VERTEXAI'' ''1''"

text \<open>Line 22.\<close>

definition model_name :: "environ \<Rightarrow> string option" where
  "model_name env = getenv env ''MODEL''"

text \<open>Line 29: the test that guards the two cloud variables.\<close>

definition use_vertexai :: "environ \<Rightarrow> bool" where
  "use_vertexai env =
     (str_lower (google_genai_use_vertexai env) \<in> set [''true'', ''1'', ''yes''])"

text \<open>Lines 25 to 33: the list is built by appending, in this order.\<close>

definition missing_vars :: "environ \<Rightarrow> string list" where
  "missing_vars env =
     (let m0 = [];
          m1 = (if \<not> truthy (model_name env) then m0 @ [''MODEL''] else m0);
          m3 = (if use_vertexai env then
                  (let m2 = (if \<not> truthy (getenv env ''GOOGLE_CLOUD_PROJECT'')
                             then m1 @ [''GOOGLE_CLOUD_PROJECT''] else m1)
                   in (if \<not> truthy (getenv env ''GOOGLE_CLOUD_LOCATION'')
                       then m2 @ [''GOOGLE_CLOUD_LOCATION''] else m2))
                else m1)
      in m3)"

text \<open>Lines 35 to 39: one \<open>ValueError\<close> for the whole list, or nothing.\<close>

definition missing_message :: "string list \<Rightarrow> string" where
  "missing_message names =
     ''Missing required environment variables: '' @ join '', '' names @ ''. '' @
     ''Please export them or add them to a .env file before running the script.''"

definition startup_validation :: "environ \<Rightarrow> exn + unit" where
  "startup_validation env =
     (let mv = missing_vars env
      in if mv \<noteq> [] then Inl (ValueError (missing_message mv)) else Inr ())"

text \<open>
  The specification's side of the check. A variable is absent when it has no value: it
  is not set, or it is set to the empty string. \<open>MODEL\<close> is always required; the cloud
  project and location are required when the hosted-backend toggle is enabled.
\<close>

definition absent :: "environ \<Rightarrow> string \<Rightarrow> bool" where
  "absent env v = (env v = None \<or> env v = Some [])"

definition required_vars :: "environ \<Rightarrow> string list" where
  "required_vars env =
     ''MODEL'' # (if use_vertexai env
                  then [''GOOGLE_CLOUD_PROJECT'', ''GOOGLE_CLOUD_LOCATION''] else [])"

section \<open>Logging callbacks (callback_logging.py)\<close>

text \<open>
  The log sink is a list of records, oldest first; \<open>logging.info\<close> appends one record of
  level \<open>INFO\<close>.
\<close>

datatype level = DEBUG | INFO | WARNING | ERROR

type_synonym log = "(level \<times> string) list"

definition logging_info :: "string \<Rightarrow> log \<Rightarrow> log" where
  "logging_info msg lg = lg @ [(INFO, msg)]"

text \<open>
  The framework's classes, with the fields the source reads. Every field of a part is
  optional; a part has no attribute \<open>tool_code\<close>. The argument dictionary of a
  function call is of an arbitrary type \<open>'a\<close>;
  the text \<open>str()\<close> gives for it is a parameter of the functions below.
\<close>

record 'a FunctionCall =
  name :: "string option"
  args :: "'a option"

record 'a Part =
  "text" :: "string option"
  function_call :: "'a FunctionCall option"

record 'a Content =
  role :: "string option"
  parts :: "'a Part list option"

record 'a LlmRequest =
  contents :: "'a Content list"

record 'a LlmResponse =
  content :: "'a Content option"

record CallbackContext =
  agent_name :: string

text \<open>\<open>str(x)\<close> and \<open>f"{x}"\<close> of an optional value: \<open>None\<close> is rendered \<open>None\<close>.\<close>

definition str_opt :: "('b \<Rightarrow> string) \<Rightarrow> 'b option \<Rightarrow> string" where
  "str_opt f x = (case x of None \<Rightarrow> ''None'' | Some v \<Rightarrow> f v)"

text \<open>Lines 11 to 16. \<open>contents[-1]\<close> is read only when \<open>contents\<close> is not empty.\<close>

definition log_query_to_model :: "CallbackContext \<Rightarrow> 'a LlmRequest \<Rightarrow> log \<Rightarrow> log" where
  "log_query_to_model callback_context llm_request lg =
     (if contents llm_request \<noteq> [] \<and> role (last (contents llm_request)) = Some ''user''
      then (case parts (last (contents llm_request)) of
              None \<Rightarrow> lg
            | Some [] \<Rightarrow> lg
            | Some (p # _) \<Rightarrow>
                (case text p of
                   None \<Rightarrow> lg
                 | Some last_user_message \<Rightarrow>
                     if last_user_message \<noteq> []
                     then logging_info
                            (''[query to '' @ agent_name callback_context @ '']: '' @
                             last_user_message) lg
                     else lg))
      else lg)"

text \<open>Lines 21 to 26: the body of the loop, for one part.\<close>

definition log_part ::
  "('a \<Rightarrow> string) \<Rightarrow> CallbackContext \<Rightarrow> 'a Part \<Rightarrow> log \<Rightarrow> log" where
  "log_part str_dict callback_context part lg =
     (if truthy (text part)
      then logging_info
             (''[response from '' @ agent_name callback_context @ '']: '' @
              (case text part of None \<Rightarrow> [] | Some t \<Rightarrow> t)) lg
      else (case function_call part of
              None \<Rightarrow> lg
            | Some fc \<Rightarrow>
                (let args_str = str_opt str_dict (args fc)
                 in logging_info
                      (''[function call from '' @ agent_name callback_context @ '']: '' @
                       str_opt (\<lambda>n. n) (name fc) @ ''('' @ args_str @ '')'') lg)))"

text \<open>Line 20: the loop over the parts.\<close>

fun log_parts ::
  "('a \<Rightarrow> string) \<Rightarrow> CallbackContext \<Rightarrow> 'a Part list \<Rightarrow> log \<Rightarrow> log" where
  "log_parts str_dict callback_context [] lg = lg"
| "log_parts str_dict callback_context (part # rest) lg =
     log_parts str_dict callback_context rest (log_part str_dict callback_context part lg)"

text \<open>Lines 18 to 26.\<close>

definition log_model_response ::
  "('a \<Rightarrow> string) \<Rightarrow> CallbackContext \<Rightarrow> 'a LlmResponse \<Rightarrow> log \<Rightarrow> log" where
  "log_model_response str_dict callback_context llm_response lg =
     (case content llm_response of
        None \<Rightarrow> lg
      | Some c \<Rightarrow>
          (case parts c of
             None \<Rightarrow> lg
           | Some ps \<Rightarrow> log_parts str_dict callback_context ps lg))"

text \<open>
  The specification's side of the two hooks. The text of a message is the text of its
  parts, in order. A text part is a part that carries non-empty text, a function-call
  part is a part that carries a function call.
\<close>

definition part_text :: "'a Part \<Rightarrow> string" where
  "part_text p = (case text p of None \<Rightarrow> [] | Some t \<Rightarrow> t)"

definition message_parts :: "'a Content \<Rightarrow> 'a Part list" where
  "message_parts c = (case parts c of None \<Rightarrow> [] | Some ps \<Rightarrow> ps)"

definition message_text :: "'a Content \<Rightarrow> string" where
  "message_text c = concat (map part_text (message_parts c))"

definition first_part_text :: "'a Content \<Rightarrow> string" where
  "first_part_text c = (case message_parts c of [] \<Rightarrow> [] | p # _ \<Rightarrow> part_text p)"

definition is_text_part :: "'a Part \<Rightarrow> bool" where
  "is_text_part p = (part_text p \<noteq> [])"

definition is_function_call_part :: "'a Part \<Rightarrow> bool" where
  "is_function_call_part p = (function_call p \<noteq> None)"

definition response_parts :: "'a LlmResponse \<Rightarrow> 'a Part list" where
  "response_parts r = (case content r of None \<Rightarrow> [] | Some c \<Rightarrow> message_parts c)"

definition response_line :: "CallbackContext \<Rightarrow> 'a Part \<Rightarrow> level \<times> string" where
  "response_line cc p = (INFO, ''[response from '' @ agent_name cc @ '']: '' @ part_text p)"

definition function_call_line ::
  "('a \<Rightarrow> string) \<Rightarrow> CallbackContext \<Rightarrow> 'a FunctionCall \<Rightarrow> level \<times> string" where
  "function_call_line str_dict cc fc =
     (INFO, ''[function call from '' @ agent_name cc @ '']: '' @
            str_opt (\<lambda>n. n) (name fc) @ ''('' @ str_opt str_dict (args fc) @ '')'')"

definition part_lines ::
  "('a \<Rightarrow> string) \<Rightarrow> CallbackContext \<Rightarrow> 'a Part \<Rightarrow> log" where
  "part_lines str_dict cc p =
     (if is_text_part p then [response_line cc p]
      else (case function_call p of
              None \<Rightarrow> []
            | Some fc \<Rightarrow> [function_call_line str_dict cc fc]))"

text \<open>Concrete inputs used below.\<close>

definition image_then_text_request :: "unit LlmRequest" where
  "image_then_text_request =
     \<lparr>contents =
        [\<lparr>role = Some ''user'',
          parts = Some [\<lparr>text = None, function_call = None\<rparr>,
                        \<lparr>text = Some ''hi'', function_call = None\<rparr>]\<rparr>]\<rparr>"

definition text_and_call_response :: "unit LlmResponse" where
  "text_and_call_response =
     \<lparr>content =
        Some \<lparr>role = Some ''model'',
              parts = Some [\<lparr>text = Some ''hi'',
                             function_call = Some \<lparr>name = Some ''f'', args = None\<rparr>\<rparr>]\<rparr>\<rparr>"

section \<open>The auditor pipeline (llm_auditor/agent.py)\<close>

text \<open>
  The two stages are imported from modules that are not among the sources; they are
  two distinct agents. Lines 26 to 35 declare the pipeline: a name, a description and the
  list of stages.
\<close>

datatype sub_agent = critic_agent | reviser_agent

record SequentialAgent =
  name :: string
  description :: string
  sub_agents :: "sub_agent list"

definition llm_auditor :: SequentialAgent where
  "llm_auditor =
     \<lparr>name = ''llm_auditor'',
      description =
        ''Use this tool to verify and correct a factual statement. '' @
        ''Input should be a single statement or a question-answer pair to be fact-checked. '' @
        ''The tool will evaluate the statement, use the web to verify its accuracy, '' @
        ''and return a corrected version if necessary.'',
      sub_agents = [critic_agent, reviser_agent]\<rparr>"

definition root_agent :: SequentialAgent where
  "root_agent = llm_auditor"

text \<open>
  Modelled from the spec: the executor of a sequential pipeline, which belongs to the
  agent framework and is not among the sources. Section 4.3: the stages run in the
  declared order, the first on the input, each next one on the conversation the one
  before has left, with no branching, no retry and no cycle; the pipeline ends with its
  last stage. The run returns the stages in the order they were invoked and the final
  conversation. What a stage does to the conversation is the parameter \<open>invoke\<close>.
\<close>

fun run_sequential ::
  "(sub_agent \<Rightarrow> 's \<Rightarrow> 's) \<Rightarrow> sub_agent list \<Rightarrow> 's \<Rightarrow> sub_agent list \<times> 's" where
  "run_sequential invoke [] s = ([], s)"
| "run_sequential invoke (a # rest) s =
     (case run_sequential invoke rest (invoke a s) of (trace, s') \<Rightarrow> (a # trace, s'))"

definition run_llm_auditor :: "(sub_agent \<Rightarrow> 's \<Rightarrow> 's) \<Rightarrow> 's \<Rightarrow> sub_agent list \<times> 's" where
  "run_llm_auditor invoke s = run_sequential invoke (sub_agents llm_auditor) s"

section \<open>The command line (app_agent/agent.py)\<close>

text \<open>
  An event of the runner's stream, with the fields \<open>run_prompt\<close> reads. The content of
  an event is optional; reading \<open>.parts\<close> of \<open>None\<close> raises \<open>AttributeError\<close>.
\<close>

record 'a Event =
  author :: string
  content :: "'a Content option"









section \<open>The HTTP backend (centralblack-backend/main.py)\<close>

text \<open>Lines 10 to 21: the three models.\<close>

record Message =
  role :: string
  content :: string
  source :: "string option"

record OrchestrateRequest =
  prompt :: string
  history :: "Message list"

record OrchestrateResponse =
  reply :: string
  source :: string

datatype HTTPException = HTTPException nat string

text \<open>
  What the handler takes from the Python runtime and from the framework around it:
  \<^item> \<open>upper\<close>: the built-in \<open>str.upper\<close>;
  \<^item> \<open>stdout_encodes\<close>: whether the encoding of \<open>sys.stdout\<close> can encode a text;
    \<open>print\<close> raises \<open>UnicodeEncodeError\<close> when it cannot;
  \<^item> \<open>json_encodes\<close>: whether the framework can serialise a response model.
\<close>

record runtime =
  upper :: "string \<Rightarrow> string"
  stdout_encodes :: "string \<Rightarrow> bool"
  json_encodes :: "OrchestrateResponse \<Rightarrow> bool"

text \<open>
  \<open>print(line)\<close> on that standard output: the line is appended, or the text that could
  not be encoded is returned as the failure.
\<close>

definition print_stdout :: "runtime \<Rightarrow> string \<Rightarrow> string list \<Rightarrow> string + string list" where
  "print_stdout rt line out = (if stdout_encodes rt line then Inr (out @ [line]) else Inl line)"

text \<open>Lines 42 to 45: the block under \<open>try\<close>. Nothing in it raises.\<close>

definition simulated_block :: "runtime \<Rightarrow> OrchestrateRequest \<Rightarrow> exn + OrchestrateResponse" where
  "simulated_block rt request =
     (let simulated_reply =
            ''El orquestador ha procesado tu prompt: '' @ [CHR 0x27] @
            upper rt (prompt request) @ [CHR 0x27];
          source_agent = ''app_agent (Simulado)''
      in Inr \<lparr>reply = simulated_reply, source = source_agent\<rparr>)"

text \<open>\<open>str(e)\<close>: the message of an exception.\<close>

fun exn_str :: "exn \<Rightarrow> string" where
  "exn_str (ValueError m) = m"
| "exn_str (AttributeError m) = m"
| "exn_str (Exception m) = m"

text \<open>
  How a call of the handler ends: it returns a response, it raises an \<open>HTTPException\<close>,
  or a \<open>UnicodeEncodeError\<close> of one of its \<open>print\<close> calls leaves it (with the text that
  could not be encoded).
\<close>

datatype handler_result =
  Returns OrchestrateResponse
  | Raises_HTTPException HTTPException
  | Raises_UnicodeEncodeError string

text \<open>
  Lines 28 to 49: the handler, with the block under \<open>try\<close> as a parameter. Line 33 prints
  the prompt, before the \<open>try\<close> of line 40: an exception of this \<open>print\<close> is not caught.
  Then the block runs; on an exception of the block, line 48 prints it and line 49 raises
  the fixed \<open>HTTPException\<close>. The result is the printed lines and how the call ends.
\<close>

definition orchestrate_try ::
  "runtime \<Rightarrow> (OrchestrateRequest \<Rightarrow> exn + OrchestrateResponse) \<Rightarrow> OrchestrateRequest \<Rightarrow>
   string list \<times> handler_result" where
  "orchestrate_try rt block request =
     (case print_stdout rt (''Prompt recibido: '' @ prompt request) [] of
        Inl t \<Rightarrow> ([], Raises_UnicodeEncodeError t)
      | Inr out \<Rightarrow>
          (case block request of
             Inr response \<Rightarrow> (out, Returns response)
           | Inl e \<Rightarrow>
               (case print_stdout rt (''Error en el orquestador: '' @ exn_str e) out of
                  Inl t \<Rightarrow> (out, Raises_UnicodeEncodeError t)
                | Inr out' \<Rightarrow>
                    (out', Raises_HTTPException
                             (HTTPException 500 ''Error interno en el orquestador.'')))))"

definition orchestrate :: "runtime \<Rightarrow> OrchestrateRequest \<Rightarrow> string list \<times> handler_result" where
  "orchestrate rt request = orchestrate_try rt (simulated_block rt) request"

text \<open>
  Modelled from the spec: what the web framework sends to the caller for the outcome of
  the handler; its code is not among the sources. Section 6: the returned model is the
  response \<open>{reply, source}\<close>, sent with the framework's status 200. Section 7: the fixed
  error of the handler is sent with its status 500 and its detail, and any other failure
  is not handled: an exception that leaves the handler, or a returned model that cannot
  be serialised, is answered with the framework's own status 500.
\<close>

datatype body = Reply OrchestrateResponse | Detail string | ValidationErrors | InternalServerError

record http_response =
  status_code :: nat
  body :: body

definition respond :: "runtime \<Rightarrow> handler_result \<Rightarrow> http_response" where
  "respond rt r =
     (case r of
        Returns response \<Rightarrow>
          if json_encodes rt response then \<lparr>status_code = 200, body = Reply response\<rparr>
          else \<lparr>status_code = 500, body = InternalServerError\<rparr>
      | Raises_HTTPException (HTTPException code detail) \<Rightarrow>
          \<lparr>status_code = code, body = Detail detail\<rparr>
      | Raises_UnicodeEncodeError t \<Rightarrow> \<lparr>status_code = 500, body = InternalServerError\<rparr>)"

text \<open>
  Modelled from the spec: the decoding and validation of the request body, which the web
  framework does from the declarations of lines 10 to 17 before it calls the handler; its
  code is not among the sources. Section 6 gives the schema
  \<open>{prompt: string, history: [Message]}\<close>, section 3 the fields of a message
  (\<open>role\<close> and \<open>content\<close> strings, \<open>source\<close> an optional string), section 8 the outcome
  for a body that is not valid: a client error, here the framework's 422. A body that is
  not JSON at all is \<open>None\<close>.
\<close>

datatype json =
  JNull | JBool bool | JNumber int | JString string
  | JArray "json list" | JObject "(string \<times> json) list"

definition validate_Message :: "json \<Rightarrow> Message option" where
  "validate_Message j =
     (case j of
        JObject kv \<Rightarrow>
          (case (map_of kv ''role'', map_of kv ''content'') of
             (Some (JString r), Some (JString c)) \<Rightarrow>
               (case map_of kv ''source'' of
                  None \<Rightarrow> Some \<lparr>role = r, content = c, source = None\<rparr>
                | Some JNull \<Rightarrow> Some \<lparr>role = r, content = c, source = None\<rparr>
                | Some (JString s) \<Rightarrow> Some \<lparr>role = r, content = c, source = Some s\<rparr>
                | Some _ \<Rightarrow> None)
           | _ \<Rightarrow> None)
      | _ \<Rightarrow> None)"

definition validate_OrchestrateRequest :: "json \<Rightarrow> OrchestrateRequest option" where
  "validate_OrchestrateRequest j =
     (case j of
        JObject kv \<Rightarrow>
          (case (map_of kv ''prompt'', map_of kv ''history'') of
             (Some (JString p), Some (JArray ms)) \<Rightarrow>
               (case those (map validate_Message ms) of
                  None \<Rightarrow> None
                | Some h \<Rightarrow> Some \<lparr>prompt = p, history = h\<rparr>)
           | _ \<Rightarrow> None)
      | _ \<Rightarrow> None)"

definition post_api_orchestrate ::
  "runtime \<Rightarrow> json option \<Rightarrow> string list \<times> http_response" where
  "post_api_orchestrate rt decoded =
     (case decoded of
        None \<Rightarrow> ([], \<lparr>status_code = 422, body = ValidationErrors\<rparr>)
      | Some j \<Rightarrow>
          (case validate_OrchestrateRequest j of
             None \<Rightarrow> ([], \<lparr>status_code = 422, body = ValidationErrors\<rparr>)
           | Some request \<Rightarrow>
               (case orchestrate rt request of (out, r) \<Rightarrow> (out, respond rt r))))"

text \<open>
  Two runtimes and two requests used below. A text holds a lone surrogate when the byte
  \<open>ED\<close> is followed by a byte of \<open>A0..BF\<close>; UTF-8 cannot encode such a text, and ASCII
  encodes the bytes below 128 only. In both runtimes the case mapping is the ASCII one,
  which is \<open>str.upper\<close> on the ASCII text it is applied to below.
\<close>

fun has_surrogate :: "string \<Rightarrow> bool" where
  "has_surrogate (a # b # rest) =
     (((of_char a :: nat) = 0xED \<and> 0xA0 \<le> (of_char b :: nat) \<and> (of_char b :: nat) \<le> 0xBF)
      \<or> has_surrogate (b # rest))"
| "has_surrogate [a] = False"
| "has_surrogate [] = False"

definition is_ascii :: "string \<Rightarrow> bool" where
  "is_ascii s = list_all (\<lambda>c. (of_char c :: nat) < 128) s"

definition utf8_runtime :: runtime where
  "utf8_runtime =
     \<lparr>upper = str_upper,
      stdout_encodes = (\<lambda>s. \<not> has_surrogate s),
      json_encodes = (\<lambda>r. \<not> has_surrogate (reply r) \<and> \<not> has_surrogate (source r))\<rparr>"

definition ascii_stdout_runtime :: runtime where
  "ascii_stdout_runtime =
     \<lparr>upper = str_upper,
      stdout_encodes = is_ascii,
      json_encodes = (\<lambda>r. \<not> has_surrogate (reply r) \<and> \<not> has_surrogate (source r))\<rparr>"

text \<open>
  The prompt that is one lone surrogate, U+D800, and the prompt \<open>caf\<close> followed by
  \<open>e\<close> with an acute accent (bytes \<open>C3 A9\<close>).
\<close>

definition surrogate_request :: OrchestrateRequest where
  "surrogate_request = \<lparr>prompt = [CHR 0xED, CHR 0xA0, CHR 0x80], history = []\<rparr>"

definition cafe_request :: OrchestrateRequest where
  "cafe_request = \<lparr>prompt = ''caf'' @ [CHR 0xC3, CHR 0xA9], history = []\<rparr>"

section \<open>Theorems\<close>

lemma truthy_absent: "(\<not> truthy (getenv env v)) = absent env v"
  by (simp add: truthy_def getenv_def absent_def split: option.splits)

lemma missing_vars_filter: "missing_vars env = filter (absent env) (required_vars env)"
  by (simp add: missing_vars_def required_vars_def model_name_def truthy_absent Let_def)

text \<open>
  Claim C1. For every environment, the startup validation collects exactly the required
  variables that are absent (unset or empty), each once and in the order \<open>MODEL\<close>,
  \<open>GOOGLE_CLOUD_PROJECT\<close>, \<open>GOOGLE_CLOUD_LOCATION\<close>; it raises one \<open>ValueError\<close> whose
  message lists these names when there is at least one, and raises nothing when there is
  none.
\<close>

theorem startup_validation_reports_exactly_missing:
  "set (missing_vars env) = {v. v \<in> set (required_vars env) \<and> absent env v}
   \<and> distinct (missing_vars env)
   \<and> startup_validation env =
       (if {v. v \<in> set (required_vars env) \<and> absent env v} = {} then Inr ()
        else Inl (ValueError
          (''Missing required environment variables: '' @
           join '', '' (filter (absent env) (required_vars env)) @
           ''. Please export them or add them to a .env file before running the script.'')))"
proof -
  have s: "set (missing_vars env) = {v. v \<in> set (required_vars env) \<and> absent env v}"
    by (auto simp add: missing_vars_filter)
  have d: "distinct (missing_vars env)"
    by (simp add: missing_vars_filter required_vars_def)
  have e: "(missing_vars env = []) = ({v. v \<in> set (required_vars env) \<and> absent env v} = {})"
    using s by (metis set_empty)
  have r: "startup_validation env =
       (if missing_vars env = [] then Inr ()
        else Inl (ValueError (missing_message (filter (absent env) (required_vars env)))))"
    by (simp add: startup_validation_def Let_def missing_vars_filter)
  show ?thesis
    using s d r e by (simp add: missing_message_def)
qed

lemma startup_validation_examples:
  "startup_validation Map.empty =
     Inl (ValueError (''Missing required environment variables: '' @
       ''MODEL, GOOGLE_CLOUD_PROJECT, GOOGLE_CLOUD_LOCATION. '' @
       ''Please export them or add them to a .env file before running the script.''))"
  "startup_validation [''MODEL'' \<mapsto> ''gemini'', ''GOOGLE_GENAI_USE_VERTEXAI'' \<mapsto> ''false''] = Inr ()"
  by (simp_all add: startup_validation_def missing_vars_def model_name_def getenv_def truthy_def
      missing_message_def use_vertexai_def google_genai_use_vertexai_def getenv_default_def
      str_lower_def lower_char_def ascii_lowercase_def ascii_uppercase_def Let_def)

subsection \<open>The before-call hook\<close>

text \<open>
  Claim C2, as the code has it. The hook appends exactly one \<open>INFO\<close> record,
  \<open>[query to <agent name>]: <text>\<close>, when the request has a last message, its role is
  \<open>user\<close> and the text of its first part is not empty; the text in the record is the text
  of that first part. In every other case the log is left as it was.
\<close>

theorem log_query_to_model_first_part:
  "log_query_to_model cc req lg =
     (if contents req \<noteq> [] \<and> Content.role (last (contents req)) = Some ''user''
         \<and> first_part_text (last (contents req)) \<noteq> []
      then lg @ [(INFO, ''[query to '' @ agent_name cc @ '']: '' @
                        first_part_text (last (contents req)))]
      else lg)"
  by (simp add: log_query_to_model_def first_part_text_def message_parts_def part_text_def
      logging_info_def split: option.splits list.splits)

text \<open>
  The claim as written speaks of the text of the last message. A user message whose
  first part carries no text (an image, say) and whose second part carries the text
  \<open>hi\<close> has role \<open>user\<close> and non-empty text, and the hook logs nothing for it.
\<close>

theorem log_query_first_part_counterexample:
  "contents image_then_text_request \<noteq> []
   \<and> Content.role (last (contents image_then_text_request)) = Some ''user''
   \<and> message_text (last (contents image_then_text_request)) = ''hi''
   \<and> log_query_to_model \<lparr>agent_name = ''fact_checking_assistant''\<rparr> image_then_text_request [] = []"
  by (simp add: image_then_text_request_def message_text_def message_parts_def part_text_def
      log_query_to_model_def)

text \<open>
  Where the two readings agree: on a message of one part the text of the message is the
  text of its first part, and a message with no text at all has no text in its first part.
\<close>

lemma message_text_single_part:
  "parts c = Some [p] \<Longrightarrow> message_text c = first_part_text c"
  by (simp add: message_text_def first_part_text_def message_parts_def)

lemma message_text_empty_first_part:
  "message_text c = [] \<Longrightarrow> first_part_text c = []"
  by (simp add: message_text_def first_part_text_def split: list.splits)

subsection \<open>The after-call hook\<close>

lemma log_part_lines: "log_part sd cc p lg = lg @ part_lines sd cc p"
  by (simp add: log_part_def part_lines_def is_text_part_def part_text_def truthy_def
      logging_info_def response_line_def function_call_line_def Let_def
      split: option.splits)

lemma log_parts_lines: "log_parts sd cc ps lg = lg @ concat (map (part_lines sd cc) ps)"
  by (induction ps arbitrary: lg) (simp_all add: log_part_lines)

lemma length_part_lines:
  "length (concat (map (part_lines sd cc) ps)) =
     length (filter is_text_part ps) +
     length (filter (\<lambda>p. is_function_call_part p \<and> \<not> is_text_part p) ps)"
  by (induction ps) (simp_all add: part_lines_def is_function_call_part_def split: option.splits)

lemma log_model_response_parts:
  "log_model_response sd cc r lg = log_parts sd cc (response_parts r) lg"
  by (simp add: log_model_response_def response_parts_def message_parts_def split: option.splits)

text \<open>
  Claim C3, as the code has it. The hook appends, for each part in order, one response
  record when the part carries non-empty text, otherwise one \<open>name(args)\<close> record when
  it carries a function call, otherwise nothing. The number of records appended is
  \<open>N + M\<close>, where \<open>N\<close> counts the parts with non-empty text and \<open>M\<close> the parts with a
  function call and no non-empty text.
\<close>

theorem log_model_response_lines:
  "log_model_response sd cc r lg = lg @ concat (map (part_lines sd cc) (response_parts r))
   \<and> length (log_model_response sd cc r lg) =
       length lg + length (filter is_text_part (response_parts r)) +
       length (filter (\<lambda>p. is_function_call_part p \<and> \<not> is_text_part p) (response_parts r))"
  by (simp add: log_model_response_parts log_parts_lines length_part_lines)

text \<open>
  The claim as written counts every function-call part. A response with one part that
  carries both the text \<open>hi\<close> and a function call has one text part and one
  function-call part, and the hook logs one record, the response one: the \<open>elif\<close> of
  line 23 is not reached.
\<close>

theorem log_model_response_text_and_call_counterexample:
  "length (filter is_text_part (response_parts text_and_call_response)) = 1
   \<and> length (filter is_function_call_part (response_parts text_and_call_response)) = 1
   \<and> log_model_response (\<lambda>d. ''{}'') \<lparr>agent_name = ''a''\<rparr> text_and_call_response [] =
       [(INFO, ''[response from a]: hi'')]"
  by (simp add: text_and_call_response_def response_parts_def message_parts_def
      is_text_part_def is_function_call_part_def part_text_def log_model_response_def
      log_part_def truthy_def logging_info_def)

subsection \<open>The auditor pipeline\<close>

text \<open>
  Claim C4. Every run of the pipeline invokes the critic first and the reviser second,
  each once and nothing after the reviser, whatever the stages do; the reviser works on
  the conversation the critic has left.
\<close>

theorem llm_auditor_critic_then_reviser:
  "run_llm_auditor invoke s =
     ([critic_agent, reviser_agent], invoke reviser_agent (invoke critic_agent s))"
  by (simp add: run_llm_auditor_def llm_auditor_def)

subsection \<open>The command line\<close>






subsection \<open>The HTTP backend\<close>

lemma upper_hello: "str_upper ''hello'' = ''HELLO''"
  by (simp add: str_upper_def upper_char_def ascii_lowercase_def ascii_uppercase_def)

lemma simulated_block_result:
  "simulated_block rt request =
     Inr \<lparr>reply = ''El orquestador ha procesado tu prompt: '' @ [CHR 0x27] @
                   upper rt (prompt request) @ [CHR 0x27],
          source = ''app_agent (Simulado)''\<rparr>"
  by (simp add: simulated_block_def Let_def)

lemma orchestrate_result:
  "orchestrate rt request =
     (if stdout_encodes rt (''Prompt recibido: '' @ prompt request)
      then ([''Prompt recibido: '' @ prompt request],
            Returns \<lparr>reply = ''El orquestador ha procesado tu prompt: '' @ [CHR 0x27] @
                              upper rt (prompt request) @ [CHR 0x27],
                     source = ''app_agent (Simulado)''\<rparr>)
      else ([], Raises_UnicodeEncodeError (''Prompt recibido: '' @ prompt request)))"
  by (simp add: orchestrate_def orchestrate_try_def simulated_block_result print_stdout_def)

lemma utf8_runtime_fields:
  "upper utf8_runtime = str_upper"
  "stdout_encodes utf8_runtime s = (\<not> has_surrogate s)"
  "json_encodes utf8_runtime r = (\<not> has_surrogate (reply r) \<and> \<not> has_surrogate (source r))"
  by (simp_all add: utf8_runtime_def)

lemma ascii_stdout_runtime_fields:
  "upper ascii_stdout_runtime = str_upper"
  "stdout_encodes ascii_stdout_runtime s = is_ascii s"
  by (simp_all add: ascii_stdout_runtime_def)

text \<open>
  Claim C5, as the code has it. For every prompt \<open>p\<close> that the standard output can encode
  and every history \<open>h\<close>, the handler prints the prompt and returns the reply
  \<open>El orquestador ha procesado tu prompt: 'P'\<close>, where \<open>P\<close> is \<open>p.upper()\<close>, with the source
  \<open>app_agent (Simulado)\<close>; \<open>P\<close> is a substring of the reply; when the response can be
  serialised the caller receives it with status 200; the outcome is the same for every
  history.
\<close>

theorem orchestrate_uppercased_echo:
  "stdout_encodes rt (''Prompt recibido: '' @ p) \<Longrightarrow>
   json_encodes rt \<lparr>reply = ''El orquestador ha procesado tu prompt: '' @ [CHR 0x27] @
                            upper rt p @ [CHR 0x27],
                   source = ''app_agent (Simulado)''\<rparr> \<Longrightarrow>
   orchestrate rt \<lparr>prompt = p, history = h\<rparr> =
     ([''Prompt recibido: '' @ p],
      Returns \<lparr>reply = ''El orquestador ha procesado tu prompt: '' @ [CHR 0x27] @
                        upper rt p @ [CHR 0x27],
               source = ''app_agent (Simulado)''\<rparr>)
   \<and> respond rt (snd (orchestrate rt \<lparr>prompt = p, history = h\<rparr>)) =
       \<lparr>status_code = 200,
        body = Reply \<lparr>reply = ''El orquestador ha procesado tu prompt: '' @ [CHR 0x27] @
                              upper rt p @ [CHR 0x27],
                     source = ''app_agent (Simulado)''\<rparr>\<rparr>
   \<and> sublist (upper rt p)
        (''El orquestador ha procesado tu prompt: '' @ [CHR 0x27] @ upper rt p @ [CHR 0x27])
   \<and> orchestrate rt \<lparr>prompt = p, history = h\<rparr> = orchestrate rt \<lparr>prompt = p, history = h'\<rparr>"
proof -
  assume enc: "stdout_encodes rt (''Prompt recibido: '' @ p)"
  assume ser: "json_encodes rt \<lparr>reply = ''El orquestador ha procesado tu prompt: '' @
                 [CHR 0x27] @ upper rt p @ [CHR 0x27], source = ''app_agent (Simulado)''\<rparr>"
  have sub: "sublist (upper rt p)
        (''El orquestador ha procesado tu prompt: '' @ [CHR 0x27] @ upper rt p @ [CHR 0x27])"
    unfolding sublist_def
    by (rule exI [of _ "''El orquestador ha procesado tu prompt: '' @ [CHR 0x27]"],
        rule exI [of _ "[CHR 0x27]"]) simp
  show ?thesis
    using enc ser sub by (simp add: orchestrate_result respond_def)
qed

theorem orchestrate_uppercased_echo_witness:
  "orchestrate utf8_runtime \<lparr>prompt = ''hello'', history = []\<rparr> =
     ([''Prompt recibido: hello''],
      Returns \<lparr>reply = ''El orquestador ha procesado tu prompt: '' @ [CHR 0x27] @
                        ''HELLO'' @ [CHR 0x27],
               source = ''app_agent (Simulado)''\<rparr>)
   \<and> status_code (respond utf8_runtime
        (snd (orchestrate utf8_runtime \<lparr>prompt = ''hello'', history = []\<rparr>))) = 200"
  using orchestrate_uppercased_echo [of utf8_runtime "''hello''" "[]" "[]"]
  by (simp add: utf8_runtime_fields upper_hello respond_def)

text \<open>
  The claim as written promises status 200 for every prompt. The prompt that is one lone
  surrogate is a string, and no standard output can encode it: the \<open>print\<close> of line 33
  raises, the handler returns nothing, and the caller receives status 500.
\<close>

theorem orchestrate_surrogate_counterexample:
  "orchestrate utf8_runtime surrogate_request =
     ([], Raises_UnicodeEncodeError (''Prompt recibido: '' @ [CHR 0xED, CHR 0xA0, CHR 0x80]))
   \<and> status_code (respond utf8_runtime (snd (orchestrate utf8_runtime surrogate_request))) = 500"
  by (simp add: orchestrate_result surrogate_request_def utf8_runtime_fields respond_def)

text \<open>
  Claim C8. The claim holds of the block under \<open>try\<close>: whatever that block is, when it
  raises, the handler prints the exception and raises the fixed \<open>HTTPException\<close>
  (\<open>orchestrate_try_catches\<close>). It fails for the \<open>print\<close> of line 33, which the handler
  runs before the \<open>try\<close>: for the prompt of one lone surrogate that \<open>print\<close> raises
  \<open>UnicodeEncodeError\<close>, nothing is caught and nothing is logged, the exception leaves the
  handler, and the caller receives the framework's error instead of the fixed one.
\<close>

theorem orchestrate_print_before_try_uncaught:
  "orchestrate utf8_runtime surrogate_request =
     ([], Raises_UnicodeEncodeError (''Prompt recibido: '' @ [CHR 0xED, CHR 0xA0, CHR 0x80]))
   \<and> snd (orchestrate utf8_runtime surrogate_request) \<noteq>
       Raises_HTTPException (HTTPException 500 ''Error interno en el orquestador.'')
   \<and> respond utf8_runtime (snd (orchestrate utf8_runtime surrogate_request)) =
       \<lparr>status_code = 500, body = InternalServerError\<rparr>"
  by (simp add: orchestrate_result surrogate_request_def utf8_runtime_fields respond_def)

lemma orchestrate_try_catches:
  "stdout_encodes rt (''Prompt recibido: '' @ prompt request) \<Longrightarrow>
   block request = Inl e \<Longrightarrow>
   stdout_encodes rt (''Error en el orquestador: '' @ exn_str e) \<Longrightarrow>
   orchestrate_try rt block request =
     ([''Prompt recibido: '' @ prompt request, ''Error en el orquestador: '' @ exn_str e],
      Raises_HTTPException (HTTPException 500 ''Error interno en el orquestador.''))"
  by (simp add: orchestrate_try_def print_stdout_def)

text \<open>
  Claim C10, as the code has it. For every request the block under \<open>try\<close> raises nothing,
  so the \<open>except\<close> branch is not entered: the handler never raises its \<open>HTTPException\<close>
  and the caller never receives the fixed error. Whenever the \<open>print\<close> of line 33 can
  write the prompt, the handler returns the simulated response.
\<close>

theorem orchestrate_error_branch_unreachable:
  "(\<forall>x. snd (orchestrate rt request) \<noteq> Raises_HTTPException x)
   \<and> body (respond rt (snd (orchestrate rt request))) \<noteq>
       Detail ''Error interno en el orquestador.''
   \<and> (stdout_encodes rt (''Prompt recibido: '' @ prompt request) \<longrightarrow>
        orchestrate rt request =
          ([''Prompt recibido: '' @ prompt request],
           Returns \<lparr>reply = ''El orquestador ha procesado tu prompt: '' @ [CHR 0x27] @
                             upper rt (prompt request) @ [CHR 0x27],
                    source = ''app_agent (Simulado)''\<rparr>))"
  by (simp add: orchestrate_result respond_def)

theorem orchestrate_error_branch_unreachable_witness:
  "stdout_encodes utf8_runtime (''Prompt recibido: '' @ ''hola'')
   \<and> orchestrate utf8_runtime \<lparr>prompt = ''hola'', history = []\<rparr> =
       ([''Prompt recibido: hola''],
        Returns \<lparr>reply = ''El orquestador ha procesado tu prompt: '' @ [CHR 0x27] @
                          ''HOLA'' @ [CHR 0x27],
                 source = ''app_agent (Simulado)''\<rparr>)"
proof -
  have e: "stdout_encodes utf8_runtime (''Prompt recibido: '' @ ''hola'')"
    by (simp add: utf8_runtime_fields)
  have u: "str_upper ''hola'' = ''HOLA''"
    by (simp add: str_upper_def upper_char_def ascii_lowercase_def ascii_uppercase_def)
  show ?thesis
    using e orchestrate_error_branch_unreachable
      [of utf8_runtime "\<lparr>prompt = ''hola'', history = []\<rparr>"]
    by (simp add: utf8_runtime_fields u)
qed

text \<open>
  The claim as written says that the body of the handler cannot raise and that the
  response is always the simulated one with status 200. On a standard output that
  encodes ASCII, the prompt \<open>caf\<close> followed by \<open>e\<close> with an acute accent makes the \<open>print\<close>
  of line 33 raise: the handler returns nothing and the caller receives status 500.
\<close>

theorem orchestrate_cafe_counterexample:
  "orchestrate ascii_stdout_runtime cafe_request =
     ([], Raises_UnicodeEncodeError (''Prompt recibido: caf'' @ [CHR 0xC3, CHR 0xA9]))
   \<and> status_code (respond ascii_stdout_runtime
        (snd (orchestrate ascii_stdout_runtime cafe_request))) = 500"
  by (simp add: orchestrate_result cafe_request_def ascii_stdout_runtime_fields is_ascii_def
      respond_def)

text \<open>
  Claim C7. A body that is not JSON, or that is JSON and does not validate against the
  request schema, is answered with status 422, a client error, and the handler is not
  run.
\<close>

theorem invalid_body_is_client_error:
  "decoded = None \<or> (\<exists>j. decoded = Some j \<and> validate_OrchestrateRequest j = None) \<Longrightarrow>
   post_api_orchestrate rt decoded = ([], \<lparr>status_code = 422, body = ValidationErrors\<rparr>)
   \<and> 400 \<le> status_code (snd (post_api_orchestrate rt decoded))
   \<and> status_code (snd (post_api_orchestrate rt decoded)) < 500"
  by (auto simp add: post_api_orchestrate_def)

theorem invalid_body_is_client_error_witness:
  "validate_OrchestrateRequest (JObject [(''prompt'', JNumber 3)]) = None
   \<and> post_api_orchestrate utf8_runtime (Some (JObject [(''prompt'', JNumber 3)])) =
       ([], \<lparr>status_code = 422, body = ValidationErrors\<rparr>)
   \<and> post_api_orchestrate utf8_runtime None =
       ([], \<lparr>status_code = 422, body = ValidationErrors\<rparr>)"
proof -
  have v: "validate_OrchestrateRequest (JObject [(''prompt'', JNumber 3)]) = None"
    by (simp add: validate_OrchestrateRequest_def)
  show ?thesis
    using v
      invalid_body_is_client_error [of "Some (JObject [(''prompt'', JNumber 3)])" utf8_runtime]
      invalid_body_is_client_error [of None utf8_runtime]
    by simp
qed

lemma valid_body_example:
  "post_api_orchestrate utf8_runtime
     (Some (JObject [(''prompt'', JString ''hello''),
                     (''history'', JArray [JObject [(''role'', JString ''user''),
                                                    (''content'', JString ''hi'')]])])) =
   ([''Prompt recibido: hello''],
    \<lparr>status_code = 200,
     body = Reply \<lparr>reply = ''El orquestador ha procesado tu prompt: '' @ [CHR 0x27] @
                            ''HELLO'' @ [CHR 0x27],
                  source = ''app_agent (Simulado)''\<rparr>\<rparr>)"
  by (simp add: post_api_orchestrate_def validate_OrchestrateRequest_def validate_Message_def
      orchestrate_result respond_def utf8_runtime_fields upper_hello)

subsection \<open>The hosted-backend toggle\<close>

text \<open>
  Claim C9. When \<open>GOOGLE_GENAI_USE_VERTEXAI\<close> is not set the toggle is enabled; when it
  is set, the toggle is enabled exactly when its value in lower case is \<open>true\<close>, \<open>1\<close>
  or \<open>yes\<close>. The cloud project and the cloud location are reported missing exactly
  when the toggle is enabled and they are absent.
\<close>

theorem vertexai_toggle:
  "use_vertexai env =
     (case env ''GOOGLE_GENAI_USE_VERTEXAI'' of
        None \<Rightarrow> True
      | Some v \<Rightarrow> str_lower v = ''true'' \<or> str_lower v = ''1'' \<or> str_lower v = ''yes'')
   \<and> (''GOOGLE_CLOUD_PROJECT'' \<in> set (missing_vars env)) =
       (use_vertexai env \<and> absent env ''GOOGLE_CLOUD_PROJECT'')
   \<and> (''GOOGLE_CLOUD_LOCATION'' \<in> set (missing_vars env)) =
       (use_vertexai env \<and> absent env ''GOOGLE_CLOUD_LOCATION'')"
proof -
  have l1: "str_lower ''1'' = ''1''"
    by (simp add: str_lower_def lower_char_def ascii_lowercase_def ascii_uppercase_def)
  have t: "use_vertexai env =
     (case env ''GOOGLE_GENAI_USE_VERTEXAI'' of
        None \<Rightarrow> True
      | Some v \<Rightarrow> str_lower v = ''true'' \<or> str_lower v = ''1'' \<or> str_lower v = ''yes'')"
    by (auto simp add: use_vertexai_def google_genai_use_vertexai_def getenv_default_def l1
        split: option.splits)
  have p: "(''GOOGLE_CLOUD_PROJECT'' \<in> set (missing_vars env)) =
       (use_vertexai env \<and> absent env ''GOOGLE_CLOUD_PROJECT'')"
    by (auto simp add: missing_vars_filter required_vars_def)
  have l: "(''GOOGLE_CLOUD_LOCATION'' \<in> set (missing_vars env)) =
       (use_vertexai env \<and> absent env ''GOOGLE_CLOUD_LOCATION'')"
    by (auto simp add: missing_vars_filter required_vars_def)
  show ?thesis using t p l by simp
qed

lemma use_vertexai_examples:
  "use_vertexai Map.empty"
  "use_vertexai [''GOOGLE_GENAI_USE_VERTEXAI'' \<mapsto> ''TRUE'']"
  "use_vertexai [''GOOGLE_GENAI_USE_VERTEXAI'' \<mapsto> ''Yes'']"
  "\<not> use_vertexai [''GOOGLE_GENAI_USE_VERTEXAI'' \<mapsto> ''0'']"
  "\<not> use_vertexai [''GOOGLE_GENAI_USE_VERTEXAI'' \<mapsto> ''on'']"
  "\<not> use_vertexai [''GOOGLE_GENAI_USE_VERTEXAI'' \<mapsto> '''']"
  by (simp_all add: use_vertexai_def google_genai_use_vertexai_def getenv_default_def
      str_lower_def lower_char_def ascii_lowercase_def ascii_uppercase_def)

end
